theory Spec2Isabelle
  imports Complex_Main "HOL-Library.Multiset"
begin

section \<open>JavaScript values and promises\<close>

text \<open>
  The controller is untyped JavaScript. Payloads, results and rejection reasons are values
  of \<open>jsval\<close>; \<open>JError\<close> stands for an instance of \<open>Error\<close> (with its message), the other
  constructors for \<open>undefined\<close>, \<open>null\<close>, booleans, (integral) numbers, strings and plain
  objects.
\<close>

datatype jsval =
    JUndefined
  | JNull
  | JBool bool
  | JNum int
  | JStr string
  | JObj "(string \<times> jsval) list"
  | JError string

text \<open>What \<open>if(v)\<close> tests.\<close>

fun truthy :: "jsval \<Rightarrow> bool" where
  "truthy JUndefined = False"
| "truthy JNull = False"
| "truthy (JBool b) = b"
| "truthy (JNum k) = (k \<noteq> 0)"
| "truthy (JStr s) = (s \<noteq> [])"
| "truthy (JObj fs) = True"
| "truthy (JError m) = True"

text \<open>\<open>v instanceof Error\<close>.\<close>

fun isError :: "jsval \<Rightarrow> bool" where
  "isError (JError m) = True"
| "isError v = False"

text \<open>
  A promise handed back by a hook, by its eventual state: fulfilled with a value, rejected
  with a reason, or never settled.
\<close>

datatype 'a promise = Resolved 'a | Rejected jsval | Pending

text \<open>
  What a hook that may answer synchronously or asynchronously returns: a plain value, or
  something with a \<open>then\<close> property.
\<close>

datatype hookret = Plain jsval | Thenable "jsval promise"

text \<open>
  What a call of an entry point does for its caller: it returns a value, throws
  synchronously, or does not come back within the fuel given to the model.
\<close>

datatype 'a ret = Returns 'a | Raises jsval | Diverges

text \<open>
  How an internal lifecycle call ends: it returns (undefined, or a promise that fulfils),
  throws synchronously, returns a promise that rejects, returns a promise that never
  settles, or is cut off by the fuel bound. Requests reach a game one at a time, so a
  call is taken together with the promise callbacks it leaves behind: they have run
  before the next request arrives.
\<close>

datatype completion = Completes | Throws jsval | Rejects jsval | Stalls | OutOfFuel

section \<open>The game object\<close>

text \<open>
  \<open>Player\<close>: the constructor stores \<open>_id\<close>; \<open>ready\<close> is absent (falsy) until
  \<open>readyUp\<close> sets it. Identifiers are UUID strings, on which \<open>==\<close> is equality.
\<close>

record player =
  pid :: string
  ready :: bool

record round_rec =
  round_number :: nat
  round_fields :: "(string \<times> jsval) list"

text \<open>\<open>turn.player_id\<close> is absent in the constructor's \<open>{ number: 0 }\<close>.\<close>

record turn_rec =
  turn_number :: nat
  turn_player_id :: "string option"

text \<open>The envelope \<open>{ player_id, round, turn, payload }\<close> pushed on \<open>moves\<close>.\<close>

record move =
  mv_player_id :: string
  mv_round :: nat
  mv_turn :: nat
  mv_payload :: jsval

datatype hook =
    HandleReadyUp | HandleRoundStart | HandleRoundEnd | HandleTurnStart
  | HandleTurnEnd | HandleMove | HandleEnd

text \<open>
  What the controller does to the outside, in order: the hooks it invokes, what it hands to
  \<open>room.broadcast\<close> (\<open>game/player_ready\<close>, \<open>game/turn\<close>, \<open>game/move\<close>, \<open>game/end\<close>), the
  \<open>end\<close> event it emits, and what it writes with \<open>console.log\<close>.
\<close>

datatype event =
    Called hook
  | PlayerReady string
  | TurnStarted round_rec turn_rec
  | MoveAccepted move
  | GameEnd jsval
  | EmitEnd jsval
  | Logged jsval

text \<open>
  The fields of \<open>Game\<close> the lifecycle reads and writes. \<open>maxRounds\<close> is \<open>null\<close> or a number,
  \<open>endResults\<close> is \<open>undefined\<close> until \<open>onEnd\<close> assigns it. \<open>trace\<close> is not a field of the
  object: it collects the events above.
\<close>

record game =
  players :: "player list"
  started :: bool
  moves :: "move list"
  round_g :: round_rec
  turn_g :: turn_rec
  maxRounds :: "nat option"
  playerOrder :: "string list"
  endResults :: jsval
  trace :: "event list"

text \<open>
  The rule set: the methods a concrete game adds to the class. A hook reads the game it is
  called on and answers with a value or a promise; what a rule set writes into the object
  on its own account is outside the model. An absent hook is \<open>None\<close>. \<open>handleTurnStart\<close>
  is a notification whose result is dropped, so only its presence is recorded.
  \<open>handleTurnEnd\<close> receives what \<open>findPlayer\<close> found, which may be nothing.
\<close>

record hooks =
  handleReadyUp :: "(game \<Rightarrow> string \<Rightarrow> jsval \<Rightarrow> hookret) option"
  handleRoundStart :: "(game \<Rightarrow> round_rec \<Rightarrow> round_rec promise) option"
  handleRoundEnd :: "(game \<Rightarrow> round_rec \<Rightarrow> jsval promise) option"
  handleTurnStart :: bool
  handleTurnEnd :: "(game \<Rightarrow> player option \<Rightarrow> jsval promise) option"
  handleMove :: "(game \<Rightarrow> jsval \<Rightarrow> jsval promise) option"
  handleEnd :: "(game \<Rightarrow> jsval \<Rightarrow> jsval promise) option"

definition emit :: "event list \<Rightarrow> game \<Rightarrow> game" where
  "emit es g = g\<lparr>trace := trace g @ es\<rparr>"

text \<open>\<open>xs[i]\<close>: \<open>undefined\<close> outside the array.\<close>

definition at_index :: "'a list \<Rightarrow> int \<Rightarrow> 'a option" where
  "at_index xs i = (if 0 \<le> i \<and> i < int (length xs) then Some (xs ! nat i) else None)"

text \<open>
  \<open>findPlayer(id)\<close> is \<open>players.find(p => p._id == id)\<close>: the first player with that
  identifier. No string equals \<open>undefined\<close>, so looking up \<open>undefined\<close> finds nobody.
\<close>

fun findPlayer :: "game \<Rightarrow> string option \<Rightarrow> player option" where
  "findPlayer g None = None"
| "findPlayer g (Some i) = find (\<lambda>p. pid p = i) (players g)"

text \<open>The error of calling a method the rule set does not define, or of reading a
  property of \<open>undefined\<close>.\<close>

definition TypeError :: jsval where
  "TypeError = JError ''TypeError''"

section \<open>Ending the game\<close>

definition onEnd :: "hooks \<Rightarrow> jsval \<Rightarrow> game \<Rightarrow> completion \<times> game" where
  "onEnd h payload g =
     (case handleEnd h of
        None \<Rightarrow> (Throws TypeError, g)
      | Some f \<Rightarrow>
          (case f g payload of
             Resolved results \<Rightarrow>
               (Completes,
                emit [GameEnd results, EmitEnd results]
                  ((emit [Called HandleEnd] g)\<lparr>endResults := results\<rparr>))
           | Rejected reason \<Rightarrow> (Rejects reason, emit [Called HandleEnd] g)
           | Pending \<Rightarrow> (Stalls, emit [Called HandleEnd] g)))"

text \<open>
  A callback of \<open>then\<close> or \<open>catch\<close> that throws rejects the promise of the chain.
\<close>

fun settle :: "completion \<times> game \<Rightarrow> completion \<times> game" where
  "settle (Throws e, g) = (Rejects e, g)"
| "settle r = r"

text \<open>
  A call whose returned promise is dropped: only a synchronous throw or the fuel bound
  reaches the caller.
\<close>

fun dropped :: "completion \<times> game \<Rightarrow> completion \<times> game" where
  "dropped (Throws e, g) = (Throws e, g)"
| "dropped (OutOfFuel, g) = (OutOfFuel, g)"
| "dropped (c, g) = (Completes, g)"

text \<open>The \<open>catch\<close> handler of \<open>nextTurn\<close>: a reason that is no \<open>Error\<close> ends the game,
  an \<open>Error\<close> is logged.\<close>

definition turnEndCatch :: "hooks \<Rightarrow> jsval \<Rightarrow> game \<Rightarrow> completion \<times> game" where
  "turnEndCatch h payload g =
     (if \<not> isError payload then dropped (onEnd h payload g)
      else (Completes, emit [Logged payload] g))"

section \<open>Rounds and turns\<close>

text \<open>
  \<open>startRound\<close>, \<open>startTurn\<close>, \<open>nextTurn\<close> and \<open>nextRound\<close> call each other, with the closures
  \<open>executeNextTurn\<close> and \<open>executeNextRound\<close>; a turn order that names nobody makes them
  run forever. Every call spends one unit of fuel, and a call without fuel hands back
  the game as it stands with \<open>OutOfFuel\<close>.
\<close>

fun startRound :: "nat \<Rightarrow> hooks \<Rightarrow> nat \<Rightarrow> game \<Rightarrow> completion \<times> game"
  and startTurn :: "nat \<Rightarrow> hooks \<Rightarrow> nat \<Rightarrow> game \<Rightarrow> completion \<times> game"
  and nextTurn :: "nat \<Rightarrow> hooks \<Rightarrow> bool \<Rightarrow> game \<Rightarrow> completion \<times> game"
  and executeNextTurn :: "nat \<Rightarrow> hooks \<Rightarrow> game \<Rightarrow> completion \<times> game"
  and nextRound :: "nat \<Rightarrow> hooks \<Rightarrow> game \<Rightarrow> completion \<times> game"
  and executeNextRound :: "nat \<Rightarrow> hooks \<Rightarrow> game \<Rightarrow> completion \<times> game"
where
  "startRound 0 h r g = (OutOfFuel, g)"
| "startRound (Suc n) h r g =
     (let g1 = g\<lparr>round_g := \<lparr>round_number = r, round_fields = []\<rparr>\<rparr> in
      case handleRoundStart h of
        None \<Rightarrow> startTurn n h 1 g1
      | Some f \<Rightarrow>
          (case f g1 (round_g g1) of
             Resolved r' \<Rightarrow>
               settle (dropped (startTurn n h 1 ((emit [Called HandleRoundStart] g1)\<lparr>round_g := r'\<rparr>)))
           | Rejected reason \<Rightarrow> (Rejects reason, emit [Called HandleRoundStart] g1)
           | Pending \<Rightarrow> (Stalls, emit [Called HandleRoundStart] g1)))"
| "startTurn 0 h t g = (OutOfFuel, g)"
| "startTurn (Suc n) h t g =
     (case findPlayer g (at_index (playerOrder g) (int t - 1)) of
        None \<Rightarrow> nextTurn n h True g
      | Some p \<Rightarrow>
          (let g1 = g\<lparr>turn_g := \<lparr>turn_number = t, turn_player_id = Some (pid p)\<rparr>\<rparr>;
               g2 = (if handleTurnStart h then emit [Called HandleTurnStart] g1 else g1)
           in (Completes, emit [TurnStarted (round_g g2) (turn_g g2)] g2)))"
| "nextTurn 0 h restart g = (OutOfFuel, g)"
| "nextTurn (Suc n) h restart g =
     (case (if restart then None else handleTurnEnd h) of
        None \<Rightarrow> executeNextTurn n h g
      | Some f \<Rightarrow>
          (case f g (findPlayer g (at_index (playerOrder g) (int (turn_number (turn_g g)) - 1))) of
             Resolved u \<Rightarrow>
               (case settle (executeNextTurn n h (emit [Called HandleTurnEnd] g)) of
                  (Rejects e, g') \<Rightarrow> settle (turnEndCatch h e g')
                | r \<Rightarrow> r)
           | Rejected reason \<Rightarrow> settle (turnEndCatch h reason (emit [Called HandleTurnEnd] g))
           | Pending \<Rightarrow> (Stalls, emit [Called HandleTurnEnd] g)))"
| "executeNextTurn 0 h g = (OutOfFuel, g)"
| "executeNextTurn (Suc n) h g =
     (let nextNum = turn_number (turn_g g) + 1 in
      if nextNum > length (playerOrder g) then nextRound n h g
      else startTurn n h nextNum g)"
| "nextRound 0 h g = (OutOfFuel, g)"
| "nextRound (Suc n) h g =
     (case handleRoundEnd h of
        None \<Rightarrow> executeNextRound n h g
      | Some f \<Rightarrow>
          (case f g (round_g g) of
             Resolved u \<Rightarrow>
               (case settle (executeNextRound n h (emit [Called HandleRoundEnd] g)) of
                  (Rejects e, g') \<Rightarrow> settle (startRound n h (round_number (round_g g')) g')
                | r \<Rightarrow> r)
           | Rejected reason \<Rightarrow>
               settle (startRound n h (round_number (round_g g)) (emit [Called HandleRoundEnd] g))
           | Pending \<Rightarrow> (Stalls, emit [Called HandleRoundEnd] g)))"
| "executeNextRound 0 h g = (OutOfFuel, g)"
| "executeNextRound (Suc n) h g =
     (let nextNum = round_number (round_g g) + 1 in
      if (case maxRounds g of None \<Rightarrow> False | Some m \<Rightarrow> m \<noteq> 0 \<and> nextNum > m)
      then onEnd h JUndefined g
      else startRound n h nextNum g)"

definition start :: "nat \<Rightarrow> hooks \<Rightarrow> game \<Rightarrow> completion \<times> game" where
  "start n h g = dropped (startRound n h 1 (g\<lparr>started := True\<rparr>))"

section \<open>Ready-up\<close>

text \<open>
  \<open>player.ready = true\<close> writes to the object \<open>findPlayer\<close> returned, the first player
  of the list with that identifier.
\<close>

fun markReady :: "string \<Rightarrow> player list \<Rightarrow> player list" where
  "markReady i [] = []"
| "markReady i (p # ps) = (if pid p = i then p\<lparr>ready := True\<rparr> # ps else p # markReady i ps)"

text \<open>The closure \<open>executeReady\<close> of \<open>readyUp\<close>. \<open>start\<close> returns nothing, so only a
  synchronous throw of the start sequence reaches it.\<close>

definition executeReady :: "nat \<Rightarrow> hooks \<Rightarrow> string \<Rightarrow> game \<Rightarrow> completion \<times> game" where
  "executeReady n h player_id g =
     (let g1 = emit [PlayerReady player_id] (g\<lparr>players := markReady player_id (players g)\<rparr>) in
      if length (filter (\<lambda>p. \<not> ready p) (players g1)) = 0 then start n h g1
      else (Completes, g1))"

text \<open>
  \<open>readyUp(player_id, payload)\<close>. Reading \<open>player.ready\<close> of a player that was not found,
  and reading \<open>handle.then\<close> of an \<open>undefined\<close> or \<open>null\<close> hook result, throw a
  \<open>TypeError\<close>. A plain object carrying a \<open>then\<close> property counts as \<open>Thenable\<close>.
\<close>

definition readyUp :: "nat \<Rightarrow> hooks \<Rightarrow> string \<Rightarrow> jsval \<Rightarrow> game \<Rightarrow> hookret ret \<times> game" where
  "readyUp n h player_id payload g =
     (if started g then (Returns (Plain (JBool False)), g)
      else case findPlayer g (Some player_id) of
        None \<Rightarrow> (Raises TypeError, g)
      | Some player \<Rightarrow>
          if ready player then (Returns (Plain (JBool False)), g)
          else case handleReadyUp h of
            None \<Rightarrow>
              (case executeReady n h player_id g of
                 (Throws e, g') \<Rightarrow> (Raises e, g')
               | (OutOfFuel, g') \<Rightarrow> (Diverges, g')
               | (c, g') \<Rightarrow> (Returns (Plain (JBool True)), g'))
          | Some f \<Rightarrow>
              (case f g player_id payload of
                 Thenable (Resolved v) \<Rightarrow>
                   (case executeReady n h player_id (emit [Called HandleReadyUp] g) of
                      (Throws e, g') \<Rightarrow> (Returns (Thenable (Rejected e)), g')
                    | (OutOfFuel, g') \<Rightarrow> (Diverges, g')
                    | (c, g') \<Rightarrow> (Returns (Thenable (Resolved v)), g'))
               | Thenable (Rejected reason) \<Rightarrow>
                   (Returns (Thenable (Rejected reason)), emit [Called HandleReadyUp] g)
               | Thenable Pending \<Rightarrow> (Returns (Thenable Pending), emit [Called HandleReadyUp] g)
               | Plain v \<Rightarrow>
                   if v = JUndefined \<or> v = JNull then (Raises TypeError, emit [Called HandleReadyUp] g)
                   else if truthy v then
                     (case executeReady n h player_id (emit [Called HandleReadyUp] g) of
                        (Throws e, g') \<Rightarrow> (Raises e, g')
                      | (OutOfFuel, g') \<Rightarrow> (Diverges, g')
                      | (c, g') \<Rightarrow> (Returns (Plain v), g'))
                   else (Returns (Plain v), emit [Called HandleReadyUp] g)))"

section \<open>Moves\<close>

definition ended_msg :: jsval where
  "ended_msg = JStr ''Game has ended.''"

definition not_started_msg :: jsval where
  "not_started_msg = JStr ''Game has not started.''"

definition not_allowed_msg :: jsval where
  "not_allowed_msg = JStr ''You are not allowed to send that right now.''"

text \<open>
  \<open>playerMove(player, move)\<close> returns a promise, or throws when the rule set has no
  \<open>handleMove\<close>. The callback of \<open>then\<close> drops what \<open>nextTurn\<close> returns, so only a
  synchronous throw of \<open>nextTurn\<close> rejects the promise of the move.
\<close>

definition playerMove :: "nat \<Rightarrow> hooks \<Rightarrow> player \<Rightarrow> jsval \<Rightarrow> game \<Rightarrow> move promise ret \<times> game" where
  "playerMove n h player mv g =
     (if truthy (endResults g) then (Returns (Rejected ended_msg), g)
      else if turn_number (turn_g g) = 0 then (Returns (Rejected not_started_msg), g)
      else if Some (pid player) \<noteq> turn_player_id (turn_g g) then (Returns (Rejected not_allowed_msg), g)
      else case handleMove h of
        None \<Rightarrow> (Raises TypeError, g)
      | Some f \<Rightarrow>
          (case f g mv of
             Resolved accepted \<Rightarrow>
               (let payload = \<lparr>mv_player_id = pid player, mv_round = round_number (round_g g),
                               mv_turn = turn_number (turn_g g), mv_payload = accepted\<rparr>;
                    g1 = emit [MoveAccepted payload] ((emit [Called HandleMove] g)\<lparr>moves := moves g @ [payload]\<rparr>)
                in case nextTurn n h False g1 of
                     (Throws e, g') \<Rightarrow> (Returns (Rejected e), g')
                   | (OutOfFuel, g') \<Rightarrow> (Diverges, g')
                   | (c, g') \<Rightarrow> (Returns (Resolved payload), g'))
           | Rejected reason \<Rightarrow> (Returns (Rejected reason), emit [Called HandleMove] g)
           | Pending \<Rightarrow> (Returns Pending, emit [Called HandleMove] g)))"

text \<open>
  The transport delivers one request at a time: a list of move requests, and a list of
  ready-up requests, handled in order, each on the game the one before left.
\<close>

fun playerMoves :: "nat \<Rightarrow> hooks \<Rightarrow> (player \<times> jsval) list \<Rightarrow> game \<Rightarrow> move promise ret list \<times> game" where
  "playerMoves n h [] g = ([], g)"
| "playerMoves n h ((p, mv) # rest) g =
     (let (r, g1) = playerMove n h p mv g;
          (rs, g2) = playerMoves n h rest g1
      in (r # rs, g2))"


section \<open>Turn order\<close>

text \<open>
  \<open>shuffle(arr)\<close> copies the array and, for \<open>i\<close> from its length down to 1, swaps
  \<open>arr[i - 1]\<close> with \<open>arr[j]\<close>, \<open>j = Math.floor(Math.random() * i)\<close>. The draws of
  \<open>Math.random\<close> are a parameter: \<open>rnd k\<close> is the \<open>k\<close>-th draw. A draw is at least 0 and
  below 1, which keeps \<open>j\<close> below \<open>i\<close> and both indices inside the array.
\<close>

fun shuffle_loop :: "(nat \<Rightarrow> real) \<Rightarrow> nat \<Rightarrow> nat \<Rightarrow> 'a list \<Rightarrow> 'a list" where
  "shuffle_loop rnd k 0 arr = arr"
| "shuffle_loop rnd k (Suc i) arr =
     (let j = nat \<lfloor>rnd k * real (Suc i)\<rfloor> in
      shuffle_loop rnd (Suc k) i (arr[i := arr ! j, j := arr ! i]))"

definition shuffle :: "(nat \<Rightarrow> real) \<Rightarrow> 'a list \<Rightarrow> 'a list" where
  "shuffle rnd arr = shuffle_loop rnd 0 (length arr) arr"

text \<open>
  The argument of \<open>setPlayerTurnOrder\<close>: an array of identifiers, or anything else, which
  the \<open>switch\<close> compares with \<open>PLAYER_ORDER.RANDOM\<close>. The module of constants is not part
  of the sources, so the value of \<open>PLAYER_ORDER.RANDOM\<close> is the parameter \<open>RANDOM\<close>.
\<close>

datatype order = OrderArray "string list" | OrderToken jsval

definition setPlayerTurnOrder :: "jsval \<Rightarrow> (nat \<Rightarrow> real) \<Rightarrow> order \<Rightarrow> game \<Rightarrow> game" where
  "setPlayerTurnOrder RANDOM rnd ord g =
     (case ord of
        OrderArray ids \<Rightarrow> g\<lparr>playerOrder := ids\<rparr>
      | OrderToken tok \<Rightarrow>
          (if tok = RANDOM then g\<lparr>playerOrder := map pid (shuffle rnd (players g))\<rparr>
           else g\<lparr>playerOrder := map pid (players g)\<rparr>))"

section \<open>Example games and rule sets\<close>

text \<open>
  The constructor, followed by the first statement of \<open>init\<close>, which creates one
  \<open>Player\<close> per entry of the room: nobody is ready, nothing has started, and the turn
  order is the order of the room.
\<close>

definition newGame :: "string list \<Rightarrow> game" where
  "newGame ids =
     \<lparr>players = map (\<lambda>i. \<lparr>pid = i, ready = False\<rparr>) ids,
      started = False,
      moves = [],
      round_g = \<lparr>round_number = 0, round_fields = []\<rparr>,
      turn_g = \<lparr>turn_number = 0, turn_player_id = None\<rparr>,
      maxRounds = None,
      playerOrder = ids,
      endResults = JUndefined,
      trace = []\<rparr>"

text \<open>A rule set with no hook at all, and one that accepts every move as it is and
  wraps the cause of the end into its results.\<close>

definition no_rules :: hooks where
  "no_rules =
     \<lparr>handleReadyUp = None, handleRoundStart = None, handleRoundEnd = None,
      handleTurnStart = False, handleTurnEnd = None, handleMove = None, handleEnd = None\<rparr>"

definition echo_move :: "game \<Rightarrow> jsval \<Rightarrow> jsval promise" where
  "echo_move g mv = Resolved mv"

definition wrap_end :: "game \<Rightarrow> jsval \<Rightarrow> jsval promise" where
  "wrap_end g cause = Resolved (JObj [(''cause'', cause)])"

definition echo_rules :: hooks where
  "echo_rules = no_rules\<lparr>handleMove := Some echo_move, handleEnd := Some wrap_end\<rparr>"

definition alice :: player where
  "alice = \<lparr>pid = ''a'', ready = False\<rparr>"

text \<open>Two players, no ready-up phase: the game right after \<open>start\<close>, in turn 1 of
  round 1, and the same game when the second player has the last turn of the round.\<close>

definition playing :: game where
  "playing = (newGame [''a'', ''b''])\<lparr>started := True,
     round_g := \<lparr>round_number = 1, round_fields = []\<rparr>,
     turn_g := \<lparr>turn_number = 1, turn_player_id = Some ''a''\<rparr>,
     trace := [TurnStarted \<lparr>round_number = 1, round_fields = []\<rparr>
                 \<lparr>turn_number = 1, turn_player_id = Some ''a''\<rparr>]\<rparr>"



definition win_turn :: "game \<Rightarrow> player option \<Rightarrow> jsval promise" where
  "win_turn g p = Rejected (JObj [(''winner'', JStr ''a'')])"

definition fail_turn :: "game \<Rightarrow> player option \<Rightarrow> jsval promise" where
  "fail_turn g p = Rejected (JError ''boom'')"

definition pass_turn :: "game \<Rightarrow> player option \<Rightarrow> jsval promise" where
  "pass_turn g p = Resolved JUndefined"

definition void_end :: "game \<Rightarrow> jsval \<Rightarrow> jsval promise" where
  "void_end g cause = Resolved JUndefined"





text \<open>Draws of \<open>Math.random\<close> that are all one half.\<close>

definition half_draws :: "nat \<Rightarrow> real" where
  "half_draws k = 1 / 2"

section \<open>Auxiliary notions\<close>

text \<open>The turn names the player the order has at its index.\<close>

definition turn_ok :: "game \<Rightarrow> bool" where
  "turn_ok g = (turn_number (turn_g g) > 0 \<longrightarrow>
      at_index (playerOrder g) (int (turn_number (turn_g g)) - 1) = turn_player_id (turn_g g))"

text \<open>The ready notifications among the events.\<close>

definition is_ready_event :: "event \<Rightarrow> bool" where
  "is_ready_event e = (case e of PlayerReady i \<Rightarrow> True | _ \<Rightarrow> False)"

text \<open>
  What the round and turn machinery leaves alone: the players, \<open>started\<close>, the moves, the
  order and \<open>maxRounds\<close>; it only adds events, none of them a ready notification, and it
  keeps the turn in step with the order.
\<close>

definition frame :: "game \<Rightarrow> game \<Rightarrow> bool" where
  "frame g g' = (players g' = players g \<and> started g' = started g \<and> moves g' = moves g \<and>
     playerOrder g' = playerOrder g \<and> maxRounds g' = maxRounds g \<and>
     (\<exists>es. trace g' = trace g @ es \<and> (\<forall>e \<in> set es. \<not> is_ready_event e)) \<and>
     (turn_ok g \<longrightarrow> turn_ok g'))"

text \<open>
  The identifiers of the \<open>game/player_ready\<close> notifications in a list of events, in
  order, and those notified between one state of the game and a later one. Each
  notification comes from one run of \<open>executeReady\<close>: one successful ready-up.
\<close>

fun ready_ids :: "event list \<Rightarrow> string list" where
  "ready_ids [] = []"
| "ready_ids (PlayerReady i # es) = i # ready_ids es"
| "ready_ids (e # es) = ready_ids es"



text \<open>
  The states of a game under a rule set: any state in which no turn has begun yet,
  and what ready-ups, moves, \<open>start\<close> and the round and turn machinery make of a
  state. A change of the turn order is admitted when the new order has the holder of
  the current turn at the index of the turn (always so before the first turn).
\<close>

inductive reachable :: "hooks \<Rightarrow> game \<Rightarrow> bool" for h where
  fresh: "turn_number (turn_g g) = 0 \<Longrightarrow> reachable h g"
| by_readyUp: "reachable h g \<Longrightarrow> reachable h (snd (readyUp n h i payload g))"
| by_playerMove: "reachable h g \<Longrightarrow> reachable h (snd (playerMove n h p mv g))"
| by_start: "reachable h g \<Longrightarrow> reachable h (snd (start n h g))"
| by_startRound: "reachable h g \<Longrightarrow> reachable h (snd (startRound n h r g))"
| by_startTurn: "reachable h g \<Longrightarrow> reachable h (snd (startTurn n h t g))"
| by_nextTurn: "reachable h g \<Longrightarrow> reachable h (snd (nextTurn n h restart g))"
| by_nextRound: "reachable h g \<Longrightarrow> reachable h (snd (nextRound n h g))"
| by_setPlayerTurnOrder:
    "reachable h g \<Longrightarrow>
     at_index (playerOrder (setPlayerTurnOrder RANDOM rnd ord g)) (int (turn_number (turn_g g)) - 1) =
       turn_player_id (turn_g g) \<Longrightarrow>
     reachable h (setPlayerTurnOrder RANDOM rnd ord g)"


section \<open>What rounds and turns leave alone\<close>

text \<open>
  Every step of the round and turn machinery is in the relation \<open>frame\<close>, which is
  reflexive and transitive; the six functions are taken together, by induction on the
  fuel.
\<close>

lemma snd_settle [simp]: "snd (settle r) = snd r"
  by (cases r rule: settle.cases) simp_all

lemma snd_dropped [simp]: "snd (dropped r) = snd r"
  by (cases r rule: dropped.cases) simp_all

lemma frame_refl [simp]: "frame g g"
  by (simp add: frame_def)

lemma frame_trans: "frame g g1 \<Longrightarrow> frame g1 g2 \<Longrightarrow> frame g g2"
  unfolding frame_def by (elim conjE exE) (simp, fastforce)

lemma frame_emit: "\<forall>e \<in> set es. \<not> is_ready_event e \<Longrightarrow> frame g (emit es g)"
  by (simp add: frame_def emit_def turn_ok_def)

lemma frame_round: "frame g (g\<lparr>round_g := r\<rparr>)"
  by (simp add: frame_def turn_ok_def)

lemma frame_endResults: "frame g (g\<lparr>endResults := r\<rparr>)"
  by (simp add: frame_def turn_ok_def)

lemma find_pid: "find (\<lambda>p. pid p = i) ps = Some p \<Longrightarrow> pid p = i"
  by (induction ps) (auto split: if_splits)

lemma frame_turn:
  assumes "findPlayer g (at_index (playerOrder g) (int t - 1)) = Some p"
  shows "frame g (g\<lparr>turn_g := \<lparr>turn_number = t, turn_player_id = Some (pid p)\<rparr>\<rparr>)"
proof -
  from assms obtain i where i: "at_index (playerOrder g) (int t - 1) = Some i"
    by (cases "at_index (playerOrder g) (int t - 1)") auto
  with assms have "find (\<lambda>p. pid p = i) (players g) = Some p" by simp
  then have "pid p = i" by (rule find_pid)
  with i show ?thesis by (simp add: frame_def turn_ok_def)
qed

lemma frame_onEnd: "frame g (snd (onEnd h v g))"
  by (simp add: onEnd_def frame_def emit_def turn_ok_def is_ready_event_def split: option.splits promise.splits)

lemma frame_turnEndCatch: "frame g (snd (turnEndCatch h v g))"
  using frame_onEnd [of g h v]
  by (simp add: turnEndCatch_def frame_emit is_ready_event_def)

lemma frame_catch:
  assumes "frame g (snd res)" and "\<And>e g'. frame g' (snd (H e g'))"
  shows "frame g (snd (case res of (Rejects e, g') \<Rightarrow> H e g' | r \<Rightarrow> r))"
proof (cases res)
  case (Pair c g')
  with assms(1) have "frame g g'" by simp
  with assms(2) Pair show ?thesis
    by (cases c) (auto intro: frame_trans)
qed

lemma frame_called: "frame g (emit [Called k] g)"
  by (rule frame_emit) (simp add: is_ready_event_def)

lemma lifecycle_frame:
  "frame g (snd (startRound n h r g)) \<and> frame g (snd (startTurn n h t g)) \<and>
   frame g (snd (nextTurn n h b g)) \<and> frame g (snd (executeNextTurn n h g)) \<and>
   frame g (snd (nextRound n h g)) \<and> frame g (snd (executeNextRound n h g))"
proof (induction n arbitrary: g r t b)
  case 0
  show ?case by simp
next
  case (Suc n)
  have sr: "frame g1 (snd (startRound n h r g2))" if "frame g1 g2" for g1 g2 r
    using that Suc.IH [of g2] by (blast intro: frame_trans)
  have st: "frame g1 (snd (startTurn n h t g2))" if "frame g1 g2" for g1 g2 t
    using that Suc.IH [of g2] by (blast intro: frame_trans)
  have nt: "frame g1 (snd (nextTurn n h b g2))" if "frame g1 g2" for g1 g2 b
    using that Suc.IH [of g2] by (blast intro: frame_trans)
  have ent: "frame g1 (snd (executeNextTurn n h g2))" if "frame g1 g2" for g1 g2
    using that Suc.IH [of g2] by (blast intro: frame_trans)
  have nr: "frame g1 (snd (nextRound n h g2))" if "frame g1 g2" for g1 g2
    using that Suc.IH [of g2] by (blast intro: frame_trans)
  have enr: "frame g1 (snd (executeNextRound n h g2))" if "frame g1 g2" for g1 g2
    using that Suc.IH [of g2] by (blast intro: frame_trans)
  have c1: "frame g (snd (startRound (Suc n) h r g))"
    by (auto simp: Let_def split: option.splits promise.splits
        intro!: st sr frame_round frame_trans [OF frame_round frame_called]
          frame_trans [OF frame_trans [OF frame_round frame_called] frame_round])
  have c2: "frame g (snd (startTurn (Suc n) h t g))"
    by (auto simp: Let_def is_ready_event_def split: option.splits
        intro!: nt frame_turn frame_trans [OF frame_turn frame_emit]
          frame_trans [OF frame_trans [OF frame_turn frame_called] frame_emit])
  have c3: "frame g (snd (nextTurn (Suc n) h b g))"
    by (auto simp: Let_def split: option.splits promise.splits
        intro!: ent frame_called frame_catch frame_turnEndCatch
          frame_trans [OF frame_called frame_turnEndCatch])
  have c4: "frame g (snd (executeNextTurn (Suc n) h g))"
    by (auto simp: Let_def intro!: nr st)
  have c5: "frame g (snd (nextRound (Suc n) h g))"
    by (auto simp: Let_def split: option.splits promise.splits
        intro!: enr sr frame_called frame_catch)
  have c6: "frame g (snd (executeNextRound (Suc n) h g))"
    by (auto simp: Let_def split: option.splits intro!: sr frame_onEnd)
  from c1 c2 c3 c4 c5 c6 show ?case by blast
qed

lemma frame_startRound: "frame g (snd (startRound n h r g))"
  using lifecycle_frame by blast

lemma frame_startTurn: "frame g (snd (startTurn n h t g))"
  using lifecycle_frame by blast

lemma frame_nextRound: "frame g (snd (nextRound n h g))"
  using lifecycle_frame by blast

lemma frame_nextTurn: "frame g (snd (nextTurn n h b g))"
  using lifecycle_frame by blast


text \<open>The example game \<open>playing\<close> is what \<open>start\<close> makes of a new game of two players.\<close>

lemma playing_reached: "start (Suc (Suc 0)) echo_rules (newGame [''a'', ''b'']) = (Completes, playing)"
  by (simp add: playing_def start_def newGame_def echo_rules_def no_rules_def at_index_def emit_def)


section \<open>Lemmas on ready-up\<close>

lemma ready_ids_append [simp]: "ready_ids (xs @ ys) = ready_ids xs @ ready_ids ys"
  by (induction xs rule: ready_ids.induct) simp_all





lemma map_pid_markReady [simp]: "map pid (markReady i ps) = map pid ps"
  by (induction ps) auto

lemma length_markReady [simp]: "length (markReady i ps) = length ps"
  by (induction ps) auto

lemma frame_start: "frame (g\<lparr>started := True\<rparr>) (snd (start n h g))"
  by (simp add: start_def frame_startRound)







section \<open>Lemmas on the turn order\<close>

text \<open>The index drawn by \<open>shuffle\<close> lies below \<open>i\<close>, and the swaps keep the elements.\<close>

lemma floor_index:
  assumes "0 \<le> r" and "r < 1"
  shows "nat \<lfloor>r * real (Suc i)\<rfloor> < Suc i"
proof -
  have "r * real (Suc i) < real (Suc i)"
    using assms by (simp add: mult_less_cancel_right2 del: of_nat_Suc)
  then have "\<lfloor>r * real (Suc i)\<rfloor> < int (Suc i)"
    by (simp add: floor_less_iff del: of_nat_Suc)
  then show ?thesis by linarith
qed

lemma mset_shuffle_loop:
  assumes "\<forall>k. 0 \<le> rnd k \<and> rnd k < 1"
  shows "i \<le> length arr \<Longrightarrow> mset (shuffle_loop rnd k i arr) = mset arr"
proof (induction i arbitrary: k arr)
  case 0
  show ?case by simp
next
  case (Suc i)
  define j where "j = nat \<lfloor>rnd k * real (Suc i)\<rfloor>"
  from assms have "j < Suc i" unfolding j_def by (intro floor_index) simp_all
  with Suc.prems have ij: "i < length arr" "j < length arr" by simp_all
  have "mset (arr[i := arr ! j, j := arr ! i]) = mset arr" by (rule mset_swap [OF ij(2) ij(1)])
  moreover from Suc.prems have "i \<le> length (arr[i := arr ! j, j := arr ! i])" by simp
  ultimately show ?case
    using Suc.IH [of "arr[i := arr ! j, j := arr ! i]" "Suc k"]
    by (simp add: Let_def j_def del: of_nat_Suc)
qed

text \<open>Ready-ups and moves keep the turn in step with the order.\<close>

lemma turn_ok_cong: "turn_g g' = turn_g g \<Longrightarrow> playerOrder g' = playerOrder g \<Longrightarrow> turn_ok g' = turn_ok g"
  by (simp add: turn_ok_def)

lemma frame_turn_ok: "frame g g' \<Longrightarrow> turn_ok g \<Longrightarrow> turn_ok g'"
  by (simp add: frame_def)

lemma turn_ok_start: "turn_ok g \<Longrightarrow> turn_ok (snd (start n h g))"
  using frame_start [of g n h] by (auto simp: frame_def turn_ok_def)

lemma turn_ok_executeReady: "turn_ok g \<Longrightarrow> turn_ok (snd (executeReady n h i g))"
proof -
  assume ok: "turn_ok g"
  define g1 where "g1 = emit [PlayerReady i] (g\<lparr>players := markReady i (players g)\<rparr>)"
  from ok have "turn_ok g1" by (simp add: g1_def emit_def turn_ok_def)
  then have "turn_ok (snd (start n h g1))" by (rule turn_ok_start)
  with \<open>turn_ok g1\<close> show ?thesis
    by (simp add: executeReady_def g1_def [symmetric])
qed

lemma readyUp_state:
  "snd (readyUp n h i payload g) = g \<or>
   snd (readyUp n h i payload g) = emit [Called HandleReadyUp] g \<or>
   snd (readyUp n h i payload g) = snd (executeReady n h i g) \<or>
   snd (readyUp n h i payload g) = snd (executeReady n h i (emit [Called HandleReadyUp] g))"
proof (cases "started g \<or> findPlayer g (Some i) = None")
  case True
  then show ?thesis by (auto simp: readyUp_def)
next
  case False
  then obtain p where p: "\<not> started g" "find (\<lambda>p. pid p = i) (players g) = Some p" by auto
  show ?thesis
  proof (cases "ready p")
    case True
    with p show ?thesis by (simp add: readyUp_def)
  next
    case nr: False
    show ?thesis
    proof (cases "handleReadyUp h")
      case None
      with p nr show ?thesis by (simp add: readyUp_def split: prod.splits completion.splits)
    next
      case (Some f)
      show ?thesis
      proof (cases "f g i payload")
        case (Plain v)
        with p nr Some show ?thesis by (simp add: readyUp_def split: prod.splits completion.splits)
      next
        case (Thenable pr)
        with p nr Some show ?thesis
          by (cases pr) (simp_all add: readyUp_def split: prod.splits completion.splits)
      qed
    qed
  qed
qed

lemma turn_ok_readyUp: "turn_ok g \<Longrightarrow> turn_ok (snd (readyUp n h i payload g))"
proof -
  assume ok: "turn_ok g"
  then have ok1: "turn_ok (emit [Called HandleReadyUp] g)" by (simp add: emit_def turn_ok_def)
  from ok have "turn_ok (snd (executeReady n h i g))" by (rule turn_ok_executeReady)
  moreover from ok1 have "turn_ok (snd (executeReady n h i (emit [Called HandleReadyUp] g)))"
    by (rule turn_ok_executeReady)
  ultimately show ?thesis using readyUp_state [of n h i payload g] ok ok1 by auto
qed

lemma turn_ok_playerMove: "turn_ok g \<Longrightarrow> turn_ok (snd (playerMove n h p mv g))"
proof -
  assume ok: "turn_ok g"
  then have ok1: "turn_ok (emit [Called HandleMove] g)" by (simp add: emit_def turn_ok_def)
  show ?thesis
  proof (cases "truthy (endResults g) \<or> turn_number (turn_g g) = 0 \<or>
      Some (pid p) \<noteq> turn_player_id (turn_g g) \<or> handleMove h = None")
    case True
    then have "snd (playerMove n h p mv g) = g" by (auto simp: playerMove_def)
    with ok show ?thesis by simp
  next
    case False
    then obtain f where f: "handleMove h = Some f" by auto
    show ?thesis
    proof (cases "f g mv")
      case (Resolved a)
      define g1 where "g1 = emit [MoveAccepted \<lparr>mv_player_id = pid p, mv_round = round_number (round_g g),
        mv_turn = turn_number (turn_g g), mv_payload = a\<rparr>]
        ((emit [Called HandleMove] g)\<lparr>moves := moves g @ [\<lparr>mv_player_id = pid p,
        mv_round = round_number (round_g g), mv_turn = turn_number (turn_g g), mv_payload = a\<rparr>]\<rparr>)"
      have r: "snd (playerMove n h p mv g) = snd (nextTurn n h False g1)"
        using False f Resolved
        by (simp add: playerMove_def Let_def g1_def split: prod.splits completion.splits)
      from ok have "turn_ok g1" by (simp add: g1_def emit_def turn_ok_def)
      with frame_nextTurn [of g1 n h False] show ?thesis unfolding r by (rule frame_turn_ok)
    next
      case (Rejected v)
      with False f ok1 show ?thesis by (simp add: playerMove_def)
    next
      case Pending
      with False f ok1 show ?thesis by (simp add: playerMove_def)
    qed
  qed
qed



section \<open>Properties of move acceptance\<close>





section \<open>Properties of the end of a turn\<close>

text \<open>
  Once \<open>endResults\<close> is truthy, every move request is turned down, whatever the rule set.
\<close>

lemma playerMoves_ended:
  "truthy (endResults g) \<Longrightarrow>
   playerMoves m h calls g = (replicate (length calls) (Returns (Rejected (JStr ''Game has ended.''))), g)"
  by (induction calls) (auto simp: playerMove_def ended_msg_def)

text \<open>
  C2. When \<open>handleTurnEnd\<close> rejects with a reason that is no \<open>Error\<close>, \<open>nextTurn\<close> runs the
  end sequence with that reason: \<open>handleEnd\<close> is called with it, \<open>endResults\<close> becomes the
  value \<open>handleEnd\<close> resolves to, \<open>game/end\<close> is broadcast and \<open>end\<close> is emitted, and
  nothing else of the game changes. \<open>playerMove\<close> tests \<open>endResults\<close> for truthiness:
  when the results are truthy, as every object is, every later \<open>playerMove\<close>, in any
  number and under any rule set, rejects with "Game has ended." and leaves the game
  as it is. When \<open>handleEnd\<close> resolves to \<open>undefined\<close>, the end is broadcast all the
  same, and the next move of the turn holder is accepted.
\<close>

theorem turn_end_win_signal:
  assumes "handleTurnEnd h = Some te"
    and "te g (findPlayer g (at_index (playerOrder g) (int (turn_number (turn_g g)) - 1))) = Rejected payload"
    and "\<not> isError payload"
    and "handleEnd h = Some he"
    and "he (emit [Called HandleTurnEnd] g) payload = Resolved results"
    and "truthy results"
  shows "nextTurn (Suc n) h False g =
           (Completes, g\<lparr>endResults := results,
              trace := trace g @ [Called HandleTurnEnd, Called HandleEnd, GameEnd results, EmitEnd results]\<rparr>) \<and>
         playerMoves m h' calls (snd (nextTurn (Suc n) h False g)) =
           (replicate (length calls) (Returns (Rejected (JStr ''Game has ended.''))),
            snd (nextTurn (Suc n) h False g))"
proof -
  have run: "nextTurn (Suc n) h False g =
           (Completes, g\<lparr>endResults := results,
              trace := trace g @ [Called HandleTurnEnd, Called HandleEnd, GameEnd results, EmitEnd results]\<rparr>)"
    using assms by (simp add: turnEndCatch_def onEnd_def emit_def)
  then have "truthy (endResults (snd (nextTurn (Suc n) h False g)))"
    using assms(6) by simp
  from playerMoves_ended [OF this] run show ?thesis by simp
qed

theorem turn_end_win_signal_witness:
  "nextTurn (Suc 0) (echo_rules\<lparr>handleTurnEnd := Some win_turn\<rparr>) False playing =
     (Completes, playing\<lparr>endResults := JObj [(''cause'', JObj [(''winner'', JStr ''a'')])],
        trace := trace playing @ [Called HandleTurnEnd, Called HandleEnd,
          GameEnd (JObj [(''cause'', JObj [(''winner'', JStr ''a'')])]),
          EmitEnd (JObj [(''cause'', JObj [(''winner'', JStr ''a'')])])]\<rparr>) \<and>
   playerMoves 0 echo_rules [(alice, JNull), (alice, JNum 3)]
       (snd (nextTurn (Suc 0) (echo_rules\<lparr>handleTurnEnd := Some win_turn\<rparr>) False playing)) =
     (replicate (length [(alice, JNull), (alice, JNum 3)]) (Returns (Rejected (JStr ''Game has ended.''))),
      snd (nextTurn (Suc 0) (echo_rules\<lparr>handleTurnEnd := Some win_turn\<rparr>) False playing))"
  by (rule turn_end_win_signal [where te = win_turn and he = wrap_end])
    (simp_all add: echo_rules_def no_rules_def win_turn_def wrap_end_def)

theorem turn_end_win_signal_counterexample:
  "fst (nextTurn (Suc 0) (echo_rules\<lparr>handleTurnEnd := Some win_turn, handleEnd := Some void_end\<rparr>) False playing) =
     Completes \<and>
   endResults (snd (nextTurn (Suc 0) (echo_rules\<lparr>handleTurnEnd := Some win_turn, handleEnd := Some void_end\<rparr>)
     False playing)) = JUndefined \<and>
   trace (snd (nextTurn (Suc 0) (echo_rules\<lparr>handleTurnEnd := Some win_turn, handleEnd := Some void_end\<rparr>)
     False playing)) =
     trace playing @ [Called HandleTurnEnd, Called HandleEnd, GameEnd JUndefined, EmitEnd JUndefined] \<and>
   fst (playerMove (Suc 0) (echo_rules\<lparr>handleTurnEnd := Some win_turn, handleEnd := Some void_end\<rparr>) alice JNull
     (snd (nextTurn (Suc 0) (echo_rules\<lparr>handleTurnEnd := Some win_turn, handleEnd := Some void_end\<rparr>)
        False playing))) =
     Returns (Resolved \<lparr>mv_player_id = ''a'', mv_round = 1, mv_turn = 1, mv_payload = JNull\<rparr>)"
  by (simp add: playing_def newGame_def alice_def echo_rules_def no_rules_def win_turn_def void_end_def
      echo_move_def playerMove_def turnEndCatch_def onEnd_def emit_def at_index_def Let_def)

text \<open>
  C3. When \<open>handleTurnEnd\<close> rejects with an \<open>Error\<close>, \<open>nextTurn\<close> logs it and swallows it:
  the promise it returns fulfils. The game does not advance: \<open>executeNextTurn\<close> sits in
  the \<open>then\<close> branch the rejection skips, so round and turn stay as they were and no
  next turn or round is started. With two players in turn 1, a turn end that resolves
  leads to turn 2, one that fails with an \<open>Error\<close> leaves turn 1 open.
\<close>

theorem turn_end_error_swallowed:
  assumes "handleTurnEnd h = Some te"
    and "te g (findPlayer g (at_index (playerOrder g) (int (turn_number (turn_g g)) - 1))) = Rejected e"
    and "isError e"
  shows "nextTurn (Suc n) h False g = (Completes, g\<lparr>trace := trace g @ [Called HandleTurnEnd, Logged e]\<rparr>)"
  using assms by (simp add: turnEndCatch_def emit_def)

theorem turn_end_error_swallowed_witness:
  "nextTurn (Suc 0) (echo_rules\<lparr>handleTurnEnd := Some fail_turn\<rparr>) False playing =
     (Completes, playing\<lparr>trace := trace playing @ [Called HandleTurnEnd, Logged (JError ''boom'')]\<rparr>)"
  using turn_end_error_swallowed [of "echo_rules\<lparr>handleTurnEnd := Some fail_turn\<rparr>" fail_turn playing
      "JError ''boom''" 0]
  by (simp add: fail_turn_def)

theorem turn_end_error_counterexample:
  "turn_g (snd (nextTurn (Suc (Suc (Suc 0))) (echo_rules\<lparr>handleTurnEnd := Some pass_turn\<rparr>) False playing)) =
     \<lparr>turn_number = 2, turn_player_id = Some ''b''\<rparr> \<and>
   turn_g (snd (nextTurn (Suc (Suc (Suc 0))) (echo_rules\<lparr>handleTurnEnd := Some fail_turn\<rparr>) False playing)) =
     \<lparr>turn_number = 1, turn_player_id = Some ''a''\<rparr>"
  by (simp add: playing_def newGame_def echo_rules_def no_rules_def pass_turn_def fail_turn_def
      turnEndCatch_def emit_def at_index_def)


section \<open>Properties of ready-up\<close>

text \<open>
  C10. While the game has not started, \<open>readyUp\<close> with an identifier no player has throws
  a \<open>TypeError\<close> (it reads \<open>ready\<close> of the \<open>undefined\<close> that \<open>findPlayer\<close> returned),
  whatever the rule set, and leaves the game untouched: nobody is marked ready. The
  check of \<open>started\<close> comes first: once the game has started the same call returns
  \<open>false\<close>.
\<close>

theorem readyUp_unknown_player:
  assumes "\<not> started g" and "i \<notin> pid ` set (players g)"
  shows "readyUp n h i payload g = (Raises TypeError, g)"
proof -
  from assms(2) have "find (\<lambda>p. pid p = i) (players g) = None"
    by (auto simp: find_None_iff)
  with assms(1) show ?thesis by (simp add: readyUp_def)
qed

theorem readyUp_unknown_player_witness:
  "readyUp 0 echo_rules ''zz'' JNull (newGame [''a'', ''b'']) = (Raises TypeError, newGame [''a'', ''b''])"
  using readyUp_unknown_player [of "newGame [''a'', ''b'']" "''zz''" 0 echo_rules JNull]
  by (simp add: newGame_def)

theorem readyUp_unknown_player_counterexample:
  "''zz'' \<notin> pid ` set (players playing) \<and>
   readyUp 0 echo_rules ''zz'' JNull playing = (Returns (Plain (JBool False)), playing)"
  by (simp add: playing_def newGame_def readyUp_def)







section \<open>Properties of the turn order\<close>

text \<open>
  C9. With draws of \<open>Math.random\<close> in the interval from 0 (included) to 1 (excluded),
  \<open>setPlayerTurnOrder\<close> with the randomization token makes \<open>playerOrder\<close> a permutation
  of the identifiers of the current players (the same multiset, in some order), and
  \<open>setPlayerTurnOrder\<close> with an array makes \<open>playerOrder\<close> that array.
\<close>

theorem setPlayerTurnOrder_orders:
  assumes "\<forall>k. 0 \<le> rnd k \<and> rnd k < 1"
  shows "mset (playerOrder (setPlayerTurnOrder RANDOM rnd (OrderToken RANDOM) g)) = mset (map pid (players g)) \<and>
         playerOrder (setPlayerTurnOrder RANDOM rnd (OrderArray ids) g) = ids"
  using mset_shuffle_loop [OF assms, of "length (players g)" "players g" 0]
  by (simp add: setPlayerTurnOrder_def shuffle_def)

theorem setPlayerTurnOrder_orders_witness:
  "playerOrder (setPlayerTurnOrder (JStr ''random'') half_draws (OrderToken (JStr ''random''))
     (newGame [''a'', ''b'', ''c''])) = [''a'', ''c'', ''b''] \<and>
   mset (playerOrder (setPlayerTurnOrder (JStr ''random'') half_draws (OrderToken (JStr ''random''))
     (newGame [''a'', ''b'', ''c'']))) = mset (map pid (players (newGame [''a'', ''b'', ''c''])))"
  using setPlayerTurnOrder_orders [of half_draws "JStr ''random''" "newGame [''a'', ''b'', ''c'']"]
  by (simp add: half_draws_def setPlayerTurnOrder_def shuffle_def newGame_def numeral_3_eq_3)


text \<open>
  C7. In every state a game reaches from one in which no turn has begun, by ready-ups,
  moves, \<open>start\<close>, and turn and round advancement, \<open>turn.player_id\<close> is
  \<open>playerOrder[turn.number - 1]\<close> whenever \<open>turn.number > 0\<close>. \<open>setPlayerTurnOrder\<close> writes
  \<open>playerOrder\<close> and leaves \<open>turn\<close> alone: it keeps the property when the new order has
  the holder of the turn at that index, and breaks it otherwise, as when the two
  players of a running game are swapped during the first turn.
\<close>

theorem turn_names_order_entry:
  assumes "reachable h g"
  shows "turn_ok g"
  using assms
proof (induction rule: reachable.induct)
  case (fresh g)
  then show ?case by (simp add: turn_ok_def)
next
  case (by_setPlayerTurnOrder g RANDOM rnd ord)
  have "turn_g (setPlayerTurnOrder RANDOM rnd ord g) = turn_g g"
    by (simp add: setPlayerTurnOrder_def split: order.splits)
  with by_setPlayerTurnOrder(2) show ?case by (simp add: turn_ok_def)
qed (auto intro: turn_ok_readyUp turn_ok_playerMove turn_ok_start
      frame_turn_ok [OF frame_startRound] frame_turn_ok [OF frame_startTurn]
      frame_turn_ok [OF frame_nextTurn] frame_turn_ok [OF frame_nextRound])

theorem turn_names_order_entry_witness:
  "turn_g (snd (playerMove (Suc (Suc (Suc 0))) echo_rules alice JNull playing)) =
     \<lparr>turn_number = 2, turn_player_id = Some ''b''\<rparr> \<and>
   turn_ok (snd (playerMove (Suc (Suc (Suc 0))) echo_rules alice JNull playing))"
proof -
  have "reachable echo_rules (newGame [''a'', ''b''])"
    by (rule reachable.fresh) (simp add: newGame_def)
  from reachable.by_start [OF this, of "Suc (Suc 0)"] have "reachable echo_rules playing"
    by (simp add: playing_reached)
  then have "reachable echo_rules (snd (playerMove (Suc (Suc (Suc 0))) echo_rules alice JNull playing))"
    by (rule reachable.by_playerMove)
  then have "turn_ok (snd (playerMove (Suc (Suc (Suc 0))) echo_rules alice JNull playing))"
    by (rule turn_names_order_entry)
  moreover have "turn_g (snd (playerMove (Suc (Suc (Suc 0))) echo_rules alice JNull playing)) =
     \<lparr>turn_number = 2, turn_player_id = Some ''b''\<rparr>"
    by (simp add: playerMove_def playing_def newGame_def alice_def echo_rules_def no_rules_def
        echo_move_def emit_def at_index_def Let_def numeral_2_eq_2)
  ultimately show ?thesis by simp
qed

theorem setPlayerTurnOrder_breaks_turn_counterexample:
  "turn_ok playing \<and> 0 < turn_number (turn_g playing) \<and>
   \<not> turn_ok (setPlayerTurnOrder (JStr ''random'') half_draws (OrderArray [''b'', ''a'']) playing)"
  by (simp add: turn_ok_def playing_def newGame_def setPlayerTurnOrder_def at_index_def)

section \<open>Properties of the end of a round\<close>



end
